theory Spec2Isabelle
  imports Main "HOL-Library.Multiset" "HOL-Library.Monad_Syntax"
begin

section \<open>Request bodies\<close>

text \<open>
  \<^verbatim>\<open>express.json()\<close> hands every handler the parsed JSON body. A field of the body is
  any JSON value, or \<^verbatim>\<open>undefined\<close> when the key is absent. JSON numbers are modelled by
  integers: the handlers only test a number for truthiness and pass it to the
  \<^verbatim>\<open>Date\<close> constructor, which truncates it to whole milliseconds.

  A request need not carry a JSON body at all. Whether \<^verbatim>\<open>req.body\<close> is then an empty
  object or \<^verbatim>\<open>undefined\<close> depends on the release of the framework, which the source
  does not fix. A handler therefore receives a \<open>body option\<close>: \<open>None\<close> is the undefined
  \<^verbatim>\<open>req.body\<close>, on which the destructuring \<^verbatim>\<open>const { ... } = req.body\<close> throws inside the
  handler's \<^verbatim>\<open>try\<close>.
\<close>

datatype jsval =
    JUndefined
  | JNull
  | JBool bool
  | JNum int
  | JStr string
  | JArr "jsval list"
  | JObj "(string \<times> jsval) list"

type_synonym body = "string \<rightharpoonup> jsval"

definition field :: "body \<Rightarrow> string \<Rightarrow> jsval" where
  "field b k = (case b k of None \<Rightarrow> JUndefined | Some v \<Rightarrow> v)"

text \<open>JavaScript truthiness, as tested by \<^verbatim>\<open>!x\<close> and \<^verbatim>\<open>x ? a : b\<close>.\<close>

fun truthy :: "jsval \<Rightarrow> bool" where
  "truthy JUndefined = False"
| "truthy JNull = False"
| "truthy (JBool b) = b"
| "truthy (JNum n) = (n \<noteq> 0)"
| "truthy (JStr s) = (s \<noteq> [])"
| "truthy (JArr vs) = True"
| "truthy (JObj kvs) = True"

section \<open>Documents\<close>

text \<open>
  \<^verbatim>\<open>gallerySchema\<close> and \<^verbatim>\<open>blogSchema\<close>. Dates are milliseconds since the epoch. A path
  that is not required holds \<open>None\<close> when the document has no value for it. The
  identifier \<^verbatim>\<open>_id\<close> is kept in its canonical string form. The version key that
  Mongoose adds to each document is left out.
\<close>

record image =
  img_id :: string
  src :: string
  publicId :: string
  alt :: "string option"
  img_createdAt :: int

record blog =
  blog_id :: string
  title :: string
  excerpt :: string
  featuredImage :: "string option"
  publishDate :: int
  slug :: string
  category :: string
  author :: "string option"
  readTime :: "int option"
  tags :: "string list"
  content :: string
  createdAt :: int
  updatedAt :: int

text \<open>The object literals given to \<^verbatim>\<open>new GalleryImage\<close> and \<^verbatim>\<open>new Blog\<close>. The
  \<^verbatim>\<open>publishDate\<close> handed to \<^verbatim>\<open>new Blog\<close> is a \<^verbatim>\<open>Date\<close> object; \<open>None\<close> is the Invalid Date.\<close>

record image_input =
  in_src :: jsval
  in_publicId :: jsval
  in_alt :: jsval

record blog_input =
  in_title :: jsval
  in_excerpt :: jsval
  in_featuredImage :: jsval
  in_category :: jsval
  in_content :: jsval
  in_slug :: jsval
  in_author :: jsval
  in_readTime :: jsval
  in_tags :: jsval
  in_publishDate :: "int option"

section \<open>Responses\<close>

type_synonym doc = "(string \<times> jsval) list"

datatype payload =
    Message string
  | Status string
  | Images "image list"
  | ImageDoc image
  | Blogs "blog list"
  | BlogDoc blog
  | Docs "doc list"

datatype response = Response nat payload

section \<open>The gateways\<close>

text \<open>
  An awaited call either rejects, which the handler's \<^verbatim>\<open>catch\<close> receives, or resolves
  with a value. Every call of the handlers to the persistence layer, to the media host
  and to the clock goes through the record \<open>deps\<close>; each call takes the state of the
  outside world and returns the state it leaves behind.
\<close>

datatype 'a outcome = Raises | Returns 'a

record 's deps =
  GalleryImage_find :: "'s \<Rightarrow> image list outcome \<times> 's"
  GalleryImage_save :: "image_input \<Rightarrow> 's \<Rightarrow> image outcome \<times> 's"
  GalleryImage_findById :: "string \<Rightarrow> 's \<Rightarrow> image option outcome \<times> 's"
  GalleryImage_findByIdAndDelete :: "string \<Rightarrow> 's \<Rightarrow> image option outcome \<times> 's"
  cloudinary_destroy :: "string \<Rightarrow> 's \<Rightarrow> jsval outcome \<times> 's"
  Blog_find :: "'s \<Rightarrow> blog list outcome \<times> 's"
  Blog_find_title_slug :: "'s \<Rightarrow> doc list outcome \<times> 's"
  Blog_findOne :: "jsval \<Rightarrow> 's \<Rightarrow> blog option outcome \<times> 's"
  Blog_save :: "blog_input \<Rightarrow> 's \<Rightarrow> blog outcome \<times> 's"
  Blog_findOneAndDelete :: "string \<Rightarrow> 's \<Rightarrow> blog option outcome \<times> 's"
  Date_now :: "'s \<Rightarrow> int"
  Date_parse :: "string \<Rightarrow> int option"
  String_of :: "jsval \<Rightarrow> string"

text \<open>
  \<^verbatim>\<open>new Date(v)\<close>: a number is taken as the time value when it is within the range
  of \<^verbatim>\<open>Date\<close>, a string is parsed, a boolean and \<^verbatim>\<open>null\<close> are converted to a number,
  an array or object is converted to a string first. \<open>None\<close> is the Invalid Date.
\<close>

definition new_Date :: "'s deps \<Rightarrow> jsval \<Rightarrow> int option" where
  "new_Date d v =
     (case v of
        JUndefined \<Rightarrow> None
      | JNull \<Rightarrow> Some 0
      | JBool b \<Rightarrow> Some (if b then 1 else 0)
      | JNum n \<Rightarrow> (if \<bar>n\<bar> \<le> 8640000000000000 then Some n else None)
      | JStr s \<Rightarrow> Date_parse d s
      | JArr vs \<Rightarrow> Date_parse d (String_of d v)
      | JObj kvs \<Rightarrow> Date_parse d (String_of d v))"

section \<open>Route handlers\<close>

text \<open>\<^verbatim>\<open>app.get("/")\<close>\<close>

definition get_root :: "'s \<Rightarrow> response \<times> 's" where
  "get_root s = (Response 200 (Status ''API is running''), s)"

text \<open>\<^verbatim>\<open>app.get("/api/gallery")\<close>\<close>

definition get_gallery :: "'s deps \<Rightarrow> 's \<Rightarrow> response \<times> 's" where
  "get_gallery d s =
     (case GalleryImage_find d s of
        (Raises, s1) \<Rightarrow> (Response 500 (Message ''Failed to fetch images''), s1)
      | (Returns images, s1) \<Rightarrow> (Response 200 (Images images), s1))"

text \<open>\<^verbatim>\<open>app.post("/api/gallery")\<close>\<close>

definition post_gallery :: "'s deps \<Rightarrow> body option \<Rightarrow> 's \<Rightarrow> response \<times> 's" where
  "post_gallery d req_body s =
     (case req_body of
        None \<Rightarrow> (Response 500 (Message ''Failed to save image''), s)
      | Some b \<Rightarrow>
          if \<not> truthy (field b ''src'') \<or> \<not> truthy (field b ''publicId'')
          then (Response 400 (Message ''Missing image data''), s)
          else
            (case GalleryImage_save d
                    \<lparr>in_src = field b ''src'', in_publicId = field b ''publicId'',
                     in_alt = field b ''alt''\<rparr> s of
               (Raises, s1) \<Rightarrow> (Response 500 (Message ''Failed to save image''), s1)
             | (Returns newImage, s1) \<Rightarrow> (Response 201 (ImageDoc newImage), s1)))"

text \<open>\<^verbatim>\<open>app.delete("/api/gallery/:id")\<close>\<close>

definition delete_gallery :: "'s deps \<Rightarrow> string \<Rightarrow> 's \<Rightarrow> response \<times> 's" where
  "delete_gallery d rid s =
     (case GalleryImage_findById d rid s of
        (Raises, s1) \<Rightarrow> (Response 500 (Message ''Delete failed''), s1)
      | (Returns None, s1) \<Rightarrow> (Response 404 (Message ''Image not found''), s1)
      | (Returns (Some img), s1) \<Rightarrow>
          (case cloudinary_destroy d (publicId img) s1 of
             (Raises, s2) \<Rightarrow> (Response 500 (Message ''Delete failed''), s2)
           | (Returns r, s2) \<Rightarrow>
               (case GalleryImage_findByIdAndDelete d rid s2 of
                  (Raises, s3) \<Rightarrow> (Response 500 (Message ''Delete failed''), s3)
                | (Returns gone, s3) \<Rightarrow>
                    (Response 200 (Message ''Image deleted successfully''), s3))))"

text \<open>\<^verbatim>\<open>app.get("/api/blogs")\<close>\<close>

definition get_blogs :: "'s deps \<Rightarrow> 's \<Rightarrow> response \<times> 's" where
  "get_blogs d s =
     (case Blog_find d s of
        (Raises, s1) \<Rightarrow> (Response 500 (Message ''Failed to fetch blogs''), s1)
      | (Returns bs, s1) \<Rightarrow> (Response 200 (Blogs bs), s1))"

text \<open>\<^verbatim>\<open>app.get("/api/blogs/:slug")\<close>\<close>

definition get_blog :: "'s deps \<Rightarrow> string \<Rightarrow> 's \<Rightarrow> response \<times> 's" where
  "get_blog d sl s =
     (case Blog_findOne d (JStr sl) s of
        (Raises, s1) \<Rightarrow> (Response 500 (Message ''Error fetching blog''), s1)
      | (Returns None, s1) \<Rightarrow> (Response 404 (Message ''Blog not found''), s1)
      | (Returns (Some b), s1) \<Rightarrow> (Response 200 (BlogDoc b), s1))"

text \<open>\<^verbatim>\<open>app.get("/api/admin/blogs")\<close>\<close>

definition get_admin_blogs :: "'s deps \<Rightarrow> 's \<Rightarrow> response \<times> 's" where
  "get_admin_blogs d s =
     (case Blog_find_title_slug d s of
        (Raises, s1) \<Rightarrow> (Response 500 (Message ''Failed to fetch blog list''), s1)
      | (Returns ds, s1) \<Rightarrow> (Response 200 (Docs ds), s1))"

text \<open>\<^verbatim>\<open>app.post("/api/blogs")\<close>\<close>

definition post_blogs :: "'s deps \<Rightarrow> body option \<Rightarrow> 's \<Rightarrow> response \<times> 's" where
  "post_blogs d req_body s =
     (case req_body of
        None \<Rightarrow> (Response 500 (Message ''Failed to create blog''), s)
      | Some b \<Rightarrow>
          if \<not> truthy (field b ''title'') \<or> \<not> truthy (field b ''excerpt'')
             \<or> \<not> truthy (field b ''category'') \<or> \<not> truthy (field b ''content'')
             \<or> \<not> truthy (field b ''slug'')
          then (Response 400 (Message ''Missing required fields''), s)
          else
            (case Blog_findOne d (field b ''slug'') s of
               (Raises, s1) \<Rightarrow> (Response 500 (Message ''Failed to create blog''), s1)
             | (Returns (Some existing), s1) \<Rightarrow>
                 (Response 409 (Message ''Slug already exists''), s1)
             | (Returns None, s1) \<Rightarrow>
                 (case Blog_save d
                         \<lparr>in_title = field b ''title'',
                          in_excerpt = field b ''excerpt'',
                          in_featuredImage = field b ''featuredImage'',
                          in_category = field b ''category'',
                          in_content = field b ''content'',
                          in_slug = field b ''slug'',
                          in_author = field b ''author'',
                          in_readTime = field b ''readTime'',
                          in_tags = field b ''tags'',
                          in_publishDate =
                            (if truthy (field b ''publishDate'')
                             then new_Date d (field b ''publishDate'')
                             else Some (Date_now d s1))\<rparr> s1 of
                    (Raises, s2) \<Rightarrow> (Response 500 (Message ''Failed to create blog''), s2)
                  | (Returns savedBlog, s2) \<Rightarrow> (Response 201 (BlogDoc savedBlog), s2))))"

text \<open>\<^verbatim>\<open>app.delete("/api/blogs/slug/:slug")\<close>\<close>

definition delete_blog :: "'s deps \<Rightarrow> string \<Rightarrow> 's \<Rightarrow> response \<times> 's" where
  "delete_blog d sl s =
     (case Blog_findOneAndDelete d sl s of
        (Raises, s1) \<Rightarrow> (Response 500 (Message ''Delete failed''), s1)
      | (Returns None, s1) \<Rightarrow> (Response 404 (Message ''Blog not found''), s1)
      | (Returns (Some deleted), s1) \<Rightarrow>
          (Response 200 (Message ''Blog deleted successfully''), s1))"

section \<open>The persistence layer and the media host\<close>

text \<open>
  The two collections behind the Mongoose models, the log of the calls that reached the
  persistence layer and the media host (oldest first), the clock, and the count of
  identifiers handed out so far.
\<close>

datatype call =
    GalleryFind
  | GallerySave
  | GalleryFindById string
  | GalleryFindByIdAndDelete string
  | CloudinaryDestroy string
  | BlogFind
  | BlogFindTitleSlug
  | BlogFindOne jsval
  | BlogSave
  | BlogFindOneAndDelete string

record world =
  blogs :: "blog list"
  gallery :: "image list"
  calls :: "call list"
  clock :: int
  oid_count :: nat

text \<open>
  What the source leaves to its libraries is a parameter of the model:
  \<^item> \<open>cast_oid\<close>: the cast of a route parameter to an \<^verbatim>\<open>ObjectId\<close>, in canonical form, or
    \<open>None\<close> when the string is not a well-formed identifier (Mongoose rejects the query
    with a \<^verbatim>\<open>CastError\<close>);
  \<^item> \<open>cast_string_other\<close>, \<open>cast_number_other\<close>, \<open>cast_tags_other\<close>: the schema casts of
    values that are not already of the path's type (\<open>None\<close> is a \<^verbatim>\<open>CastError\<close>);
  \<^item> \<open>query_slug_other\<close>: the answer to \<^verbatim>\<open>Blog.findOne({ slug })\<close> for a slug that is not a
    string;
  \<^item> \<open>uploader\<close>: the media host's answer to \<^verbatim>\<open>uploader.destroy(publicId)\<close>, a rejection
    or the result object;
  \<^item> \<open>new_oid\<close>: the identifier generator;
  \<^item> \<open>parse_date\<close>, \<open>to_string\<close>: \<^verbatim>\<open>Date.parse\<close> and the string conversion of a value.
\<close>

record env =
  cast_oid :: "string \<Rightarrow> string option"
  cast_string_other :: "jsval \<Rightarrow> string option"
  cast_number_other :: "jsval \<Rightarrow> int option"
  cast_tags_other :: "jsval \<Rightarrow> string list option"
  query_slug_other :: "jsval \<Rightarrow> blog list \<Rightarrow> blog option outcome"
  uploader :: "string \<Rightarrow> jsval outcome"
  new_oid :: "nat \<Rightarrow> string"
  parse_date :: "string \<Rightarrow> int option"
  to_string :: "jsval \<Rightarrow> string"

definition logged :: "call \<Rightarrow> world \<Rightarrow> world" where
  "logged c w = w\<lparr>calls := calls w @ [c]\<rparr>"

subsection \<open>Schema paths\<close>

text \<open>
  A path of type \<^verbatim>\<open>String\<close> keeps a string as it is. \<^verbatim>\<open>required: true\<close> rejects
  \<^verbatim>\<open>undefined\<close>, \<^verbatim>\<open>null\<close> and the empty string. A \<^verbatim>\<open>default\<close> replaces \<^verbatim>\<open>undefined\<close>
  only. In the results \<open>None\<close> is a validation failure.
\<close>

definition cast_String :: "env \<Rightarrow> jsval \<Rightarrow> string option" where
  "cast_String e v = (case v of JStr s \<Rightarrow> Some s | _ \<Rightarrow> cast_string_other e v)"

definition required_String :: "env \<Rightarrow> jsval \<Rightarrow> string option" where
  "required_String e v =
     (case v of
        JUndefined \<Rightarrow> None
      | JNull \<Rightarrow> None
      | _ \<Rightarrow> (case cast_String e v of
                None \<Rightarrow> None
              | Some s \<Rightarrow> if s = [] then None else Some s))"

definition plain_String :: "env \<Rightarrow> jsval \<Rightarrow> string option option" where
  "plain_String e v =
     (case v of
        JUndefined \<Rightarrow> Some None
      | JNull \<Rightarrow> Some None
      | _ \<Rightarrow> map_option Some (cast_String e v))"

definition default_String :: "string \<Rightarrow> env \<Rightarrow> jsval \<Rightarrow> string option option" where
  "default_String dflt e v =
     (case v of JUndefined \<Rightarrow> Some (Some dflt) | _ \<Rightarrow> plain_String e v)"

definition plain_Number :: "env \<Rightarrow> jsval \<Rightarrow> int option option" where
  "plain_Number e v =
     (case v of
        JUndefined \<Rightarrow> Some None
      | JNull \<Rightarrow> Some None
      | JNum n \<Rightarrow> Some (Some n)
      | _ \<Rightarrow> map_option Some (cast_number_other e v))"

definition String_array :: "env \<Rightarrow> jsval \<Rightarrow> string list option" where
  "String_array e v =
     (case v of
        JUndefined \<Rightarrow> Some []
      | JArr vs \<Rightarrow> those (map (cast_String e) vs)
      | _ \<Rightarrow> cast_tags_other e v)"

subsection \<open>Documents built from the schemas\<close>

text \<open>\<^verbatim>\<open>gallerySchema\<close>: \<^verbatim>\<open>createdAt\<close> defaults to \<^verbatim>\<open>Date.now\<close>, and the constructor is
  given no value for it.\<close>

definition GalleryImage_doc :: "env \<Rightarrow> image_input \<Rightarrow> string \<Rightarrow> int \<Rightarrow> image option" where
  "GalleryImage_doc e i oid t =
     do {
       s \<leftarrow> required_String e (in_src i);
       p \<leftarrow> required_String e (in_publicId i);
       a \<leftarrow> default_String ''Event Image'' e (in_alt i);
       Some \<lparr>img_id = oid, src = s, publicId = p, alt = a, img_createdAt = t\<rparr>
     }"

text \<open>\<^verbatim>\<open>blogSchema\<close>, with \<^verbatim>\<open>timestamps: true\<close>.\<close>

definition Blog_doc :: "env \<Rightarrow> blog_input \<Rightarrow> string \<Rightarrow> int \<Rightarrow> blog option" where
  "Blog_doc e i oid t =
     do {
       ti \<leftarrow> required_String e (in_title i);
       ex \<leftarrow> required_String e (in_excerpt i);
       fi \<leftarrow> plain_String e (in_featuredImage i);
       pd \<leftarrow> in_publishDate i;
       sl \<leftarrow> required_String e (in_slug i);
       ca \<leftarrow> required_String e (in_category i);
       au \<leftarrow> default_String ''Admin'' e (in_author i);
       rt \<leftarrow> plain_Number e (in_readTime i);
       tg \<leftarrow> String_array e (in_tags i);
       co \<leftarrow> required_String e (in_content i);
       Some \<lparr>blog_id = oid, title = ti, excerpt = ex, featuredImage = fi,
             publishDate = pd, slug = sl, category = ca, author = au, readTime = rt,
             tags = tg, content = co, createdAt = t, updatedAt = t\<rparr>
     }"

subsection \<open>Queries and writes\<close>

text \<open>\<^verbatim>\<open>.sort({ key: -1 })\<close>: descending by the key.\<close>

definition sort_desc :: "('a \<Rightarrow> int) \<Rightarrow> 'a list \<Rightarrow> 'a list" where
  "sort_desc key xs = sort_key (\<lambda>x. - key x) xs"

text \<open>An inclusive projection keeps the named paths and \<^verbatim>\<open>_id\<close>, which the source does
  not exclude.\<close>

definition title_slug :: "blog \<Rightarrow> doc" where
  "title_slug b =
     [(''_id'', JStr (blog_id b)), (''title'', JStr (title b)), (''slug'', JStr (slug b))]"

definition find_GalleryImage :: "world \<Rightarrow> image list outcome \<times> world" where
  "find_GalleryImage w = (Returns (sort_desc img_createdAt (gallery w)), logged GalleryFind w)"

definition save_GalleryImage :: "env \<Rightarrow> image_input \<Rightarrow> world \<Rightarrow> image outcome \<times> world" where
  "save_GalleryImage e i w =
     (let w1 = (logged GallerySave w)\<lparr>oid_count := Suc (oid_count w)\<rparr> in
      case GalleryImage_doc e i (new_oid e (oid_count w)) (clock w) of
        None \<Rightarrow> (Raises, w1)
      | Some img \<Rightarrow> (Returns img, w1\<lparr>gallery := gallery w @ [img]\<rparr>))"

definition findById :: "env \<Rightarrow> string \<Rightarrow> world \<Rightarrow> image option outcome \<times> world" where
  "findById e rid w =
     (case cast_oid e rid of
        None \<Rightarrow> (Raises, logged (GalleryFindById rid) w)
      | Some oid \<Rightarrow>
          (Returns (find (\<lambda>i. img_id i = oid) (gallery w)), logged (GalleryFindById rid) w))"

definition findByIdAndDelete :: "env \<Rightarrow> string \<Rightarrow> world \<Rightarrow> image option outcome \<times> world" where
  "findByIdAndDelete e rid w =
     (case cast_oid e rid of
        None \<Rightarrow> (Raises, logged (GalleryFindByIdAndDelete rid) w)
      | Some oid \<Rightarrow>
          (case find (\<lambda>i. img_id i = oid) (gallery w) of
             None \<Rightarrow> (Returns None, logged (GalleryFindByIdAndDelete rid) w)
           | Some img \<Rightarrow>
               (Returns (Some img),
                (logged (GalleryFindByIdAndDelete rid) w)\<lparr>gallery := remove1 img (gallery w)\<rparr>)))"

definition destroy :: "env \<Rightarrow> string \<Rightarrow> world \<Rightarrow> jsval outcome \<times> world" where
  "destroy e pid w = (uploader e pid, logged (CloudinaryDestroy pid) w)"

definition find_Blog :: "world \<Rightarrow> blog list outcome \<times> world" where
  "find_Blog w = (Returns (sort_desc publishDate (blogs w)), logged BlogFind w)"

definition find_Blog_title_slug :: "world \<Rightarrow> doc list outcome \<times> world" where
  "find_Blog_title_slug w =
     (Returns (map title_slug (sort_desc createdAt (blogs w))), logged BlogFindTitleSlug w)"

definition findOne :: "env \<Rightarrow> jsval \<Rightarrow> world \<Rightarrow> blog option outcome \<times> world" where
  "findOne e v w =
     (case v of
        JStr s \<Rightarrow> (Returns (find (\<lambda>b. slug b = s) (blogs w)), logged (BlogFindOne v) w)
      | _ \<Rightarrow> (query_slug_other e v (blogs w), logged (BlogFindOne v) w))"

text \<open>\<^verbatim>\<open>unique: true\<close> on \<^verbatim>\<open>slug\<close>: the insert of a second document with a stored slug is
  rejected.\<close>

definition save_Blog :: "env \<Rightarrow> blog_input \<Rightarrow> world \<Rightarrow> blog outcome \<times> world" where
  "save_Blog e i w =
     (let w1 = (logged BlogSave w)\<lparr>oid_count := Suc (oid_count w)\<rparr> in
      case Blog_doc e i (new_oid e (oid_count w)) (clock w) of
        None \<Rightarrow> (Raises, w1)
      | Some b \<Rightarrow>
          if slug b \<in> set (map slug (blogs w)) then (Raises, w1)
          else (Returns b, w1\<lparr>blogs := blogs w @ [b]\<rparr>))"

definition findOneAndDelete :: "string \<Rightarrow> world \<Rightarrow> blog option outcome \<times> world" where
  "findOneAndDelete sl w =
     (case find (\<lambda>b. slug b = sl) (blogs w) of
        None \<Rightarrow> (Returns None, logged (BlogFindOneAndDelete sl) w)
      | Some b \<Rightarrow>
          (Returns (Some b),
           (logged (BlogFindOneAndDelete sl) w)\<lparr>blogs := remove1 b (blogs w)\<rparr>))"

text \<open>The dependencies of the running service.\<close>

definition service :: "env \<Rightarrow> world deps" where
  "service e =
     \<lparr>GalleryImage_find = find_GalleryImage,
      GalleryImage_save = save_GalleryImage e,
      GalleryImage_findById = findById e,
      GalleryImage_findByIdAndDelete = findByIdAndDelete e,
      cloudinary_destroy = destroy e,
      Blog_find = find_Blog,
      Blog_find_title_slug = find_Blog_title_slug,
      Blog_findOne = findOne e,
      Blog_save = save_Blog e,
      Blog_findOneAndDelete = findOneAndDelete,
      Date_now = clock,
      Date_parse = parse_date e,
      String_of = to_string e\<rparr>"

section \<open>A sample deployment\<close>

text \<open>
  Concrete values for the parameters, on which the handlers can be run: identifiers are
  strings of 24 hexadecimal digits, compared without regard to case; only values already
  of a path's type are accepted; the media host answers every deletion with
  \<^verbatim>\<open>{ result: "ok" }\<close>.
\<close>

definition is_hex :: "char \<Rightarrow> bool" where
  "is_hex c = (c \<in> set ''0123456789abcdefABCDEF'')"

definition lower_hex :: "char \<Rightarrow> char" where
  "lower_hex c =
     (if c = CHR ''A'' then CHR ''a'' else if c = CHR ''B'' then CHR ''b''
      else if c = CHR ''C'' then CHR ''c'' else if c = CHR ''D'' then CHR ''d''
      else if c = CHR ''E'' then CHR ''e'' else if c = CHR ''F'' then CHR ''f'' else c)"

definition ObjectId :: "string \<Rightarrow> string option" where
  "ObjectId s = (if length s = 24 \<and> list_all is_hex s then Some (map lower_hex s) else None)"

fun hex_of :: "nat \<Rightarrow> nat \<Rightarrow> string" where
  "hex_of 0 n = []"
| "hex_of (Suc k) n = hex_of k (n div 16) @ [''0123456789abcdef'' ! (n mod 16)]"

definition sample_env :: env where
  "sample_env =
     \<lparr>cast_oid = ObjectId,
      cast_string_other = (\<lambda>v. None),
      cast_number_other = (\<lambda>v. None),
      cast_tags_other = (\<lambda>v. None),
      query_slug_other = (\<lambda>v bs. Raises),
      uploader = (\<lambda>p. Returns (JObj [(''result'', JStr ''ok'')])),
      new_oid = hex_of 24,
      parse_date = (\<lambda>s. None),
      to_string = (\<lambda>v. [])\<rparr>"

definition sample_image :: image where
  "sample_image =
     \<lparr>img_id = ''65a000000000000000000001'', src = ''https://x/y.jpg'',
      publicId = ''gallery/y'', alt = Some ''Event Image'',
      img_createdAt = 1700000000000\<rparr>"

definition sample_blog :: blog where
  "sample_blog =
     \<lparr>blog_id = ''65b000000000000000000001'', title = ''A'', excerpt = ''B'',
      featuredImage = None, publishDate = 1700000000000, slug = ''a-post'',
      category = ''C'', author = Some ''Admin'', readTime = None, tags = [],
      content = ''D'', createdAt = 1700000000000, updatedAt = 1700000000000\<rparr>"

definition sample_world :: world where
  "sample_world =
     \<lparr>blogs = [sample_blog], gallery = [sample_image], calls = [],
      clock = 1700000005000, oid_count = 0\<rparr>"

definition empty_world :: world where
  "empty_world = \<lparr>blogs = [], gallery = [], calls = [], clock = 1700000005000, oid_count = 0\<rparr>"

text \<open>The body of the specification's example request.\<close>

definition example_post :: body where
  "example_post =
     [''title'' \<mapsto> JStr ''A'', ''excerpt'' \<mapsto> JStr ''B'', ''category'' \<mapsto> JStr ''C'',
      ''content'' \<mapsto> JStr ''D'', ''slug'' \<mapsto> JStr ''a-post'']"

definition example_image :: body where
  "example_image = [''src'' \<mapsto> JStr ''https://x/y.jpg'', ''publicId'' \<mapsto> JStr ''gallery/y'']"

text \<open>A post created after \<open>sample_blog\<close> with a publication date in the past.\<close>

definition backdated_blog :: blog where
  "backdated_blog =
     \<lparr>blog_id = ''65b000000000000000000002'', title = ''E'', excerpt = ''F'',
      featuredImage = None, publishDate = 1600000000000, slug = ''e-post'',
      category = ''C'', author = Some ''Admin'', readTime = None, tags = [],
      content = ''G'', createdAt = 1700000003000, updatedAt = 1700000003000\<rparr>"

text \<open>A deployment in which another request removes every gallery record while the
  handler awaits the media host.\<close>

definition racing_service :: "world deps" where
  "racing_service =
     (service sample_env)
       \<lparr>cloudinary_destroy :=
          (\<lambda>pid w. (Returns (JObj [(''result'', JStr ''ok'')]),
                     (logged (CloudinaryDestroy pid) w)\<lparr>gallery := []\<rparr>))\<rparr>"

section \<open>Auxiliary facts\<close>

lemma sorted_wrt_sort_desc:
  "sorted_wrt (\<lambda>x y. key y \<le> key x) (sort_desc key xs)"
proof -
  have "sorted (map (\<lambda>x. - key x) (sort_key (\<lambda>x. - key x) xs))"
    by (rule sorted_sort_key)
  then show ?thesis
    by (simp add: sort_desc_def sorted_map)
qed

lemma mset_sort_desc: "mset (sort_desc key xs) = mset xs"
  by (simp add: sort_desc_def)

lemma find_slug_stored:
  assumes "s \<in> set (map slug bs)"
  shows "\<exists>x. find (\<lambda>b. slug b = s) bs = Some x"
proof (cases "find (\<lambda>b. slug b = s) bs")
  case None
  with assms show ?thesis by (auto simp: find_None_iff)
next
  case (Some x)
  then show ?thesis by simp
qed

lemma ObjectId_sample:
  "ObjectId ''65A000000000000000000001'' = Some ''65a000000000000000000001''"
  by (simp add: ObjectId_def is_hex_def lower_hex_def)

lemma hex_of_24_0: "hex_of 24 0 = ''000000000000000000000000''"
  by code_simp

section \<open>Gallery deletion\<close>

text \<open>
  Claim C1. When the id of a deletion request casts to the identifier of a stored
  record, the call to the media host, with the record's stored \<open>publicId\<close>, is logged
  before the call that deletes the record. If the media host rejects the call, the
  handler answers 500 with the message ``Delete failed'', the gallery collection is
  what it was, the record is still found under its identifier, and no deleting call
  has reached the persistence layer.
\<close>

theorem delete_gallery_order:
  assumes "cast_oid e rid = Some oid"
    and "find (\<lambda>i. img_id i = oid) (gallery w) = Some img"
  shows "(uploader e (publicId img) = Raises \<longrightarrow>
            fst (delete_gallery (service e) rid w) = Response 500 (Message ''Delete failed'')
          \<and> gallery (snd (delete_gallery (service e) rid w)) = gallery w
          \<and> find (\<lambda>i. img_id i = oid) (gallery (snd (delete_gallery (service e) rid w)))
              = Some img
          \<and> calls (snd (delete_gallery (service e) rid w)) =
              calls w @ [GalleryFindById rid, CloudinaryDestroy (publicId img)])
       \<and> (uploader e (publicId img) \<noteq> Raises \<longrightarrow>
            calls (snd (delete_gallery (service e) rid w)) =
              calls w @ [GalleryFindById rid, CloudinaryDestroy (publicId img),
                         GalleryFindByIdAndDelete rid])"
  using assms
  by (cases "uploader e (publicId img)")
     (simp_all add: delete_gallery_def service_def findById_def destroy_def
        findByIdAndDelete_def logged_def)

text \<open>The stored sample image, with a media host that rejects and with one that
  answers.\<close>

theorem delete_gallery_order_witness:
  "fst (delete_gallery (service (sample_env\<lparr>uploader := \<lambda>p. Raises\<rparr>))
          ''65A000000000000000000001'' sample_world) = Response 500 (Message ''Delete failed'')
   \<and> gallery (snd (delete_gallery (service (sample_env\<lparr>uploader := \<lambda>p. Raises\<rparr>))
          ''65A000000000000000000001'' sample_world)) = [sample_image]
   \<and> calls (snd (delete_gallery (service (sample_env\<lparr>uploader := \<lambda>p. Raises\<rparr>))
          ''65A000000000000000000001'' sample_world)) =
       [GalleryFindById ''65A000000000000000000001'', CloudinaryDestroy ''gallery/y'']
   \<and> calls (snd (delete_gallery (service sample_env)
          ''65A000000000000000000001'' sample_world)) =
       [GalleryFindById ''65A000000000000000000001'', CloudinaryDestroy ''gallery/y'',
        GalleryFindByIdAndDelete ''65A000000000000000000001'']"
  using delete_gallery_order [of "sample_env\<lparr>uploader := \<lambda>p. Raises\<rparr>"
          "''65A000000000000000000001''" "''65a000000000000000000001''" sample_world sample_image]
        delete_gallery_order [of sample_env
          "''65A000000000000000000001''" "''65a000000000000000000001''" sample_world sample_image]
  by (simp add: sample_env_def sample_world_def sample_image_def ObjectId_sample)

text \<open>
  Claim C5, as amended. When the id of a deletion request is the identifier of no
  stored record, the handler answers 404 ``Image not found'' if the id is a well-formed
  identifier, and 500 ``Delete failed'' if it is not, because the lookup then rejects.
  Either way the world is changed by the logged lookup alone: the gallery collection is
  what it was and no call has reached the media host.
\<close>

theorem delete_gallery_no_record:
  assumes "\<forall>i \<in> set (gallery w). cast_oid e rid \<noteq> Some (img_id i)"
  shows "delete_gallery (service e) rid w =
           (if cast_oid e rid = None then Response 500 (Message ''Delete failed'')
            else Response 404 (Message ''Image not found''),
            w\<lparr>calls := calls w @ [GalleryFindById rid]\<rparr>)"
proof (cases "cast_oid e rid")
  case None
  then show ?thesis
    by (simp add: delete_gallery_def service_def findById_def logged_def)
next
  case (Some oid)
  with assms have "find (\<lambda>i. img_id i = oid) (gallery w) = None"
    by (auto simp: find_None_iff)
  with Some show ?thesis
    by (simp add: delete_gallery_def service_def findById_def logged_def)
qed

text \<open>A well-formed identifier that no stored record has.\<close>

theorem delete_gallery_no_record_witness:
  "delete_gallery (service sample_env) ''65a000000000000000000002'' sample_world =
     (Response 404 (Message ''Image not found''),
      sample_world\<lparr>calls := [GalleryFindById ''65a000000000000000000002'']\<rparr>)"
  using delete_gallery_no_record [of sample_world sample_env "''65a000000000000000000002''"]
  by (simp add: sample_env_def sample_world_def sample_image_def ObjectId_def is_hex_def
        lower_hex_def)

text \<open>Claim C5 as first stated fails: with no record stored at all, the id \<^verbatim>\<open>xyz\<close>
  is answered with 500, not 404.\<close>

theorem delete_gallery_no_record_counterexample:
  "gallery empty_world = []
   \<and> delete_gallery (service sample_env) ''xyz'' empty_world =
       (Response 500 (Message ''Delete failed''),
        empty_world\<lparr>calls := [GalleryFindById ''xyz'']\<rparr>)"
  by (simp add: delete_gallery_def service_def findById_def logged_def sample_env_def
        empty_world_def ObjectId_def)

text \<open>
  Claim C8. When the record is stored and the media host answers the deletion with any
  result \<open>r\<close> at all, the handler deletes the record and answers 200 ``Image deleted
  successfully''; the answer and the world it leaves do not depend on \<open>r\<close>.
\<close>

theorem delete_gallery_any_host_result:
  assumes "cast_oid e rid = Some oid"
    and "find (\<lambda>i. img_id i = oid) (gallery w) = Some img"
    and "uploader e (publicId img) = Returns r"
  shows "delete_gallery (service e) rid w =
           (Response 200 (Message ''Image deleted successfully''),
            w\<lparr>gallery := remove1 img (gallery w),
              calls := calls w @ [GalleryFindById rid, CloudinaryDestroy (publicId img),
                                  GalleryFindByIdAndDelete rid]\<rparr>)"
  using assms
  by (simp add: delete_gallery_def service_def findById_def destroy_def
        findByIdAndDelete_def logged_def)

text \<open>A media host that answers \<^verbatim>\<open>{ result: "not found" }\<close>.\<close>

theorem delete_gallery_any_host_result_witness:
  "delete_gallery
     (service (sample_env\<lparr>uploader := \<lambda>p. Returns (JObj [(''result'', JStr ''not found'')])\<rparr>))
     ''65A000000000000000000001'' sample_world =
   (Response 200 (Message ''Image deleted successfully''),
    sample_world\<lparr>gallery := [],
      calls := [GalleryFindById ''65A000000000000000000001'', CloudinaryDestroy ''gallery/y'',
                GalleryFindByIdAndDelete ''65A000000000000000000001'']\<rparr>)"
  using delete_gallery_any_host_result
          [of "sample_env\<lparr>uploader := \<lambda>p. Returns (JObj [(''result'', JStr ''not found'')])\<rparr>"
              "''65A000000000000000000001''" "''65a000000000000000000001''" sample_world
              sample_image "JObj [(''result'', JStr ''not found'')]"]
  by (simp add: sample_env_def sample_world_def sample_image_def ObjectId_sample)

text \<open>
  Claim C9. For any persistence layer and media host: when the lookup resolves with a
  record, the media host resolves, and the final delete resolves with any value
  \<open>gone\<close>, also with no record, the handler answers 200 ``Image deleted successfully''.
\<close>

theorem delete_gallery_final_delete_ignored:
  assumes "GalleryImage_findById d rid s = (Returns (Some img), s1)"
    and "cloudinary_destroy d (publicId img) s1 = (Returns r, s2)"
    and "GalleryImage_findByIdAndDelete d rid s2 = (Returns gone, s3)"
  shows "delete_gallery d rid s = (Response 200 (Message ''Image deleted successfully''), s3)"
  using assms by (simp add: delete_gallery_def)

text \<open>The record disappears between the lookup and the delete: the delete resolves
  with no record, and the answer is the success message.\<close>

theorem delete_gallery_final_delete_ignored_witness:
  "GalleryImage_findByIdAndDelete racing_service ''65A000000000000000000001''
     (sample_world\<lparr>gallery := [],
        calls := [GalleryFindById ''65A000000000000000000001'', CloudinaryDestroy ''gallery/y'']\<rparr>)
   = (Returns None,
      sample_world\<lparr>gallery := [],
        calls := [GalleryFindById ''65A000000000000000000001'', CloudinaryDestroy ''gallery/y'',
                  GalleryFindByIdAndDelete ''65A000000000000000000001'']\<rparr>)
   \<and> delete_gallery racing_service ''65A000000000000000000001'' sample_world =
     (Response 200 (Message ''Image deleted successfully''),
      sample_world\<lparr>gallery := [],
        calls := [GalleryFindById ''65A000000000000000000001'', CloudinaryDestroy ''gallery/y'',
                  GalleryFindByIdAndDelete ''65A000000000000000000001'']\<rparr>)"
proof -
  let ?rid = "''65A000000000000000000001''"
  let ?w1 = "sample_world\<lparr>calls := [GalleryFindById ?rid]\<rparr>"
  let ?w2 = "sample_world\<lparr>gallery := [],
        calls := [GalleryFindById ?rid, CloudinaryDestroy ''gallery/y'']\<rparr>"
  let ?w3 = "sample_world\<lparr>gallery := [],
        calls := [GalleryFindById ?rid, CloudinaryDestroy ''gallery/y'',
                  GalleryFindByIdAndDelete ?rid]\<rparr>"
  have a: "GalleryImage_findById racing_service ?rid sample_world =
      (Returns (Some sample_image), ?w1)"
    by (simp add: racing_service_def service_def findById_def logged_def sample_env_def
          sample_world_def sample_image_def ObjectId_sample)
  have b: "cloudinary_destroy racing_service (publicId sample_image) ?w1 =
      (Returns (JObj [(''result'', JStr ''ok'')]), ?w2)"
    by (simp add: racing_service_def service_def logged_def sample_world_def sample_image_def)
  have c: "GalleryImage_findByIdAndDelete racing_service ?rid ?w2 = (Returns None, ?w3)"
    by (simp add: racing_service_def service_def findByIdAndDelete_def logged_def sample_env_def
          sample_world_def ObjectId_sample)
  from delete_gallery_final_delete_ignored [OF a b c] c show ?thesis by simp
qed

section \<open>Blog creation\<close>

text \<open>
  Claim C3, as amended. For any persistence layer: when the request has a body in which
  one of the fields \<open>title\<close>, \<open>excerpt\<close>, \<open>category\<close>, \<open>content\<close>, \<open>slug\<close> is absent
  or is the empty string, the handler answers 400 ``Missing required fields''; when
  the request has no body at all, so that every field is absent, reading the fields
  throws and the handler answers 500 ``Failed to create blog''. In both cases the
  handler hands back the state it was given: no call is made, so nothing is persisted.
\<close>

theorem post_blogs_missing_field:
  assumes "k \<in> set [''title'', ''excerpt'', ''category'', ''content'', ''slug'']"
    and "field b k = JUndefined \<or> field b k = JStr []"
  shows "post_blogs d (Some b) s = (Response 400 (Message ''Missing required fields''), s)
       \<and> post_blogs d None s = (Response 500 (Message ''Failed to create blog''), s)"
proof -
  from assms(2) have "\<not> truthy (field b k)" by auto
  with assms(1) show ?thesis
    by (auto simp: post_blogs_def)
qed

text \<open>The example request without its \<open>content\<close>, and with an empty \<open>excerpt\<close>.\<close>

theorem post_blogs_missing_field_witness:
  "post_blogs (service sample_env) (Some (example_post(''content'' := None))) sample_world =
     (Response 400 (Message ''Missing required fields''), sample_world)
   \<and> post_blogs (service sample_env) (Some (example_post(''excerpt'' \<mapsto> JStr []))) sample_world =
     (Response 400 (Message ''Missing required fields''), sample_world)"
  using post_blogs_missing_field
          [of "''content''" "example_post(''content'' := None)" "service sample_env" sample_world]
        post_blogs_missing_field
          [of "''excerpt''" "example_post(''excerpt'' \<mapsto> JStr [])" "service sample_env"
              sample_world]
  by (simp add: field_def example_post_def)

text \<open>Claim C3 as first stated fails: a request without a body supplies none of the
  required fields and is answered with 500, not 400.\<close>

theorem post_blogs_missing_field_counterexample:
  "post_blogs (service sample_env) None sample_world =
     (Response 500 (Message ''Failed to create blog''), sample_world)"
  by (simp add: post_blogs_def)

text \<open>
  Claim C2, as amended. When the slug of a creation request is the slug of a stored
  post, the handler answers 409 ``Slug already exists'' if the five required fields are
  all truthy, and 400 ``Missing required fields'' otherwise. In both cases the blog
  collection is what it was.
\<close>

theorem post_blogs_stored_slug:
  assumes "field b ''slug'' = JStr s" and "s \<in> set (map slug (blogs w))"
  shows "(truthy (field b ''title'') \<and> truthy (field b ''excerpt'')
            \<and> truthy (field b ''category'') \<and> truthy (field b ''content'')
            \<and> truthy (field b ''slug'')
          \<longrightarrow> post_blogs (service e) (Some b) w =
                (Response 409 (Message ''Slug already exists''),
                 w\<lparr>calls := calls w @ [BlogFindOne (JStr s)]\<rparr>))
       \<and> (\<not> (truthy (field b ''title'') \<and> truthy (field b ''excerpt'')
            \<and> truthy (field b ''category'') \<and> truthy (field b ''content'')
            \<and> truthy (field b ''slug''))
          \<longrightarrow> post_blogs (service e) (Some b) w =
                (Response 400 (Message ''Missing required fields''), w))
       \<and> blogs (snd (post_blogs (service e) (Some b) w)) = blogs w"
proof -
  from assms(2) obtain x where x: "find (\<lambda>b. slug b = s) (blogs w) = Some x"
    using find_slug_stored by blast
  have found: "Blog_findOne (service e) (JStr s) w =
      (Returns (Some x), w\<lparr>calls := calls w @ [BlogFindOne (JStr s)]\<rparr>)"
    by (simp add: service_def findOne_def logged_def x)
  show ?thesis
    using assms(1) found by (auto simp: post_blogs_def)
qed

text \<open>The example request against a collection that already holds its slug.\<close>

theorem post_blogs_stored_slug_witness:
  "post_blogs (service sample_env) (Some example_post) sample_world =
     (Response 409 (Message ''Slug already exists''),
      sample_world\<lparr>calls := [BlogFindOne (JStr ''a-post'')]\<rparr>)
   \<and> blogs (snd (post_blogs (service sample_env) (Some example_post) sample_world)) = [sample_blog]"
  using post_blogs_stored_slug [of example_post "''a-post''" sample_world sample_env]
  by (simp add: field_def example_post_def sample_world_def sample_blog_def)

text \<open>Claim C2 as first stated fails: the same request without a \<open>title\<close> carries a
  stored slug and is answered with 400, not 409.\<close>

theorem post_blogs_stored_slug_counterexample:
  "field (example_post(''title'' := None)) ''slug'' = JStr (slug sample_blog)
   \<and> sample_blog \<in> set (blogs sample_world)
   \<and> post_blogs (service sample_env) (Some (example_post(''title'' := None))) sample_world =
       (Response 400 (Message ''Missing required fields''), sample_world)"
  by (simp add: post_blogs_def field_def example_post_def sample_world_def sample_blog_def)

text \<open>
  What a creation request stores when its five required fields are non-empty strings,
  its slug is not stored yet and its other fields pass the schema: the date is the one
  constructed from a truthy \<open>publishDate\<close>, and the time of the request otherwise.
\<close>

lemma post_blogs_created:
  assumes req: "field b ''title'' = JStr ti" "ti \<noteq> []"
      "field b ''excerpt'' = JStr ex" "ex \<noteq> []"
      "field b ''category'' = JStr ca" "ca \<noteq> []"
      "field b ''content'' = JStr co" "co \<noteq> []"
      "field b ''slug'' = JStr sl" "sl \<noteq> []"
    and fresh: "sl \<notin> set (map slug (blogs w))"
    and opt: "plain_String e (field b ''featuredImage'') = Some fi"
      "default_String ''Admin'' e (field b ''author'') = Some au"
      "plain_Number e (field b ''readTime'') = Some rt"
      "String_array e (field b ''tags'') = Some tg"
    and date: "(if truthy (field b ''publishDate'')
                then new_Date (service e) (field b ''publishDate'')
                else Some (clock w)) = Some pd"
  shows "fst (post_blogs (service e) (Some b) w) =
           Response 201 (BlogDoc
             \<lparr>blog_id = new_oid e (oid_count w), title = ti, excerpt = ex,
              featuredImage = fi, publishDate = pd, slug = sl, category = ca, author = au,
              readTime = rt, tags = tg, content = co, createdAt = clock w,
              updatedAt = clock w\<rparr>)"
proof -
  have none: "find (\<lambda>b. slug b = sl) (blogs w) = None"
    using fresh by (auto simp: find_None_iff)
  have doc: "Blog_doc e
       \<lparr>in_title = JStr ti, in_excerpt = JStr ex,
        in_featuredImage = field b ''featuredImage'', in_category = JStr ca,
        in_content = JStr co, in_slug = JStr sl, in_author = field b ''author'',
        in_readTime = field b ''readTime'', in_tags = field b ''tags'',
        in_publishDate = Some pd\<rparr> (new_oid e (oid_count w)) (clock w) =
     Some \<lparr>blog_id = new_oid e (oid_count w), title = ti, excerpt = ex,
              featuredImage = fi, publishDate = pd, slug = sl, category = ca, author = au,
              readTime = rt, tags = tg, content = co, createdAt = clock w,
              updatedAt = clock w\<rparr>"
    using req opt by (simp add: Blog_doc_def required_String_def cast_String_def)
  have sel: "Date_now (service e) = clock" "Blog_findOne (service e) = findOne e"
      "Blog_save (service e) = save_Blog e"
    by (simp_all add: service_def)
  have "post_blogs (service e) (Some b) w =
     (case save_Blog e
        \<lparr>in_title = JStr ti, in_excerpt = JStr ex,
        in_featuredImage = field b ''featuredImage'', in_category = JStr ca,
        in_content = JStr co, in_slug = JStr sl, in_author = field b ''author'',
        in_readTime = field b ''readTime'', in_tags = field b ''tags'',
        in_publishDate = Some pd\<rparr> (logged (BlogFindOne (JStr sl)) w) of
        (Raises, s2) \<Rightarrow> (Response 500 (Message ''Failed to create blog''), s2)
      | (Returns savedBlog, s2) \<Rightarrow> (Response 201 (BlogDoc savedBlog), s2))"
    using req date none
    by (cases "truthy (field b ''publishDate'')")
       (simp_all add: post_blogs_def findOne_def logged_def sel)
  then show ?thesis
    using doc fresh by (simp add: save_Blog_def logged_def)
qed

text \<open>The specification's example request on an empty collection: 201, the author
  ``Admin'', and the time of the request as \<open>publishDate\<close>.\<close>

lemma post_blogs_created_example:
  "fst (post_blogs (service sample_env) (Some example_post) empty_world) =
     Response 201 (BlogDoc
       \<lparr>blog_id = ''000000000000000000000000'', title = ''A'', excerpt = ''B'',
        featuredImage = None, publishDate = 1700000005000, slug = ''a-post'',
        category = ''C'', author = Some ''Admin'', readTime = None, tags = [],
        content = ''D'', createdAt = 1700000005000, updatedAt = 1700000005000\<rparr>)"
  using post_blogs_created
          [of example_post "''A''" "''B''" "''C''" "''D''" "''a-post''" empty_world sample_env
              None "Some ''Admin''" None "[]" 1700000005000]
  by (simp add: field_def example_post_def empty_world_def sample_env_def plain_String_def
        default_String_def plain_Number_def String_array_def hex_of_24_0)

text \<open>
  Claim C6. The example request with \<open>publishDate\<close> set to the number 0 supplies a valid
  date, the epoch, and omits \<open>author\<close>. It is answered with 201 and the author
  ``Admin'', but the stored \<open>publishDate\<close> is the time of the request, not the supplied
  date.
\<close>

theorem post_blogs_publishDate_zero:
  "new_Date (service sample_env) (JNum 0) = Some 0
   \<and> clock empty_world = 1700000005000
   \<and> fst (post_blogs (service sample_env) (Some (example_post(''publishDate'' \<mapsto> JNum 0))) empty_world) =
       Response 201 (BlogDoc
         \<lparr>blog_id = ''000000000000000000000000'', title = ''A'', excerpt = ''B'',
          featuredImage = None, publishDate = 1700000005000, slug = ''a-post'',
          category = ''C'', author = Some ''Admin'', readTime = None, tags = [],
          content = ''D'', createdAt = 1700000005000, updatedAt = 1700000005000\<rparr>)"
  by (simp add: new_Date_def post_blogs_def field_def example_post_def service_def findOne_def
        save_Blog_def Blog_doc_def required_String_def cast_String_def plain_String_def
        default_String_def plain_Number_def String_array_def logged_def sample_env_def
        empty_world_def hex_of_24_0)

text \<open>The answer is not the record the request asked for, dated at the epoch.\<close>

theorem post_blogs_publishDate_zero_witness:
  "fst (post_blogs (service sample_env) (Some (example_post(''publishDate'' \<mapsto> JNum 0))) empty_world) \<noteq>
       Response 201 (BlogDoc
         \<lparr>blog_id = ''000000000000000000000000'', title = ''A'', excerpt = ''B'',
          featuredImage = None, publishDate = 0, slug = ''a-post'',
          category = ''C'', author = Some ''Admin'', readTime = None, tags = [],
          content = ''D'', createdAt = 1700000005000, updatedAt = 1700000005000\<rparr>)"
  using post_blogs_publishDate_zero by simp

section \<open>Blog listings\<close>

text \<open>
  Claim C4. For every blog collection, in whatever order it is stored, the handler of
  \<^verbatim>\<open>GET /api/blogs\<close> answers 200 with a list that holds exactly the stored posts, each
  as often as it is stored, in descending order of \<open>publishDate\<close>.
\<close>

theorem get_blogs_sorted:
  "\<exists>bs. get_blogs (service e) w =
          (Response 200 (Blogs bs), w\<lparr>calls := calls w @ [BlogFind]\<rparr>)
        \<and> mset bs = mset (blogs w)
        \<and> sorted_wrt (\<lambda>x y. publishDate y \<le> publishDate x) bs"
  by (simp add: get_blogs_def service_def find_Blog_def logged_def sorted_wrt_sort_desc
        mset_sort_desc)

text \<open>Two posts, stored in either order, are listed newest publication first.\<close>

theorem get_blogs_sorted_witness:
  "get_blogs (service sample_env) (empty_world\<lparr>blogs := [backdated_blog, sample_blog]\<rparr>) =
     (Response 200 (Blogs [sample_blog, backdated_blog]),
      empty_world\<lparr>blogs := [backdated_blog, sample_blog], calls := [BlogFind]\<rparr>)
   \<and> get_blogs (service sample_env) (empty_world\<lparr>blogs := [sample_blog, backdated_blog]\<rparr>) =
     (Response 200 (Blogs [sample_blog, backdated_blog]),
      empty_world\<lparr>blogs := [sample_blog, backdated_blog], calls := [BlogFind]\<rparr>)"
  using get_blogs_sorted [of sample_env "empty_world\<lparr>blogs := [backdated_blog, sample_blog]\<rparr>"]
        get_blogs_sorted [of sample_env "empty_world\<lparr>blogs := [sample_blog, backdated_blog]\<rparr>"]
  by (simp add: get_blogs_def service_def find_Blog_def logged_def sort_desc_def
        empty_world_def sample_blog_def backdated_blog_def)

text \<open>
  Claim C7, as amended. For every blog collection the handler of
  \<^verbatim>\<open>GET /api/admin/blogs\<close> answers 200 with one document per stored post, in descending
  order of \<open>createdAt\<close>; each document holds the post's \<open>_id\<close>, \<open>title\<close> and \<open>slug\<close> and
  nothing else.
\<close>

theorem get_admin_blogs_projection:
  "\<exists>bs. get_admin_blogs (service e) w =
          (Response 200
             (Docs (map (\<lambda>b. [(''_id'', JStr (blog_id b)), (''title'', JStr (title b)),
                               (''slug'', JStr (slug b))]) bs)),
           w\<lparr>calls := calls w @ [BlogFindTitleSlug]\<rparr>)
        \<and> mset bs = mset (blogs w)
        \<and> sorted_wrt (\<lambda>x y. createdAt y \<le> createdAt x) bs"
proof (intro exI conjI)
  have "title_slug = (\<lambda>b. [(''_id'', JStr (blog_id b)), (''title'', JStr (title b)),
                               (''slug'', JStr (slug b))])"
    by (rule ext) (simp add: title_slug_def)
  then show "get_admin_blogs (service e) w =
          (Response 200
             (Docs (map (\<lambda>b. [(''_id'', JStr (blog_id b)), (''title'', JStr (title b)),
                               (''slug'', JStr (slug b))]) (sort_desc createdAt (blogs w)))),
           w\<lparr>calls := calls w @ [BlogFindTitleSlug]\<rparr>)"
    by (simp add: get_admin_blogs_def service_def find_Blog_title_slug_def logged_def)
  show "mset (sort_desc createdAt (blogs w)) = mset (blogs w)"
    by (rule mset_sort_desc)
  show "sorted_wrt (\<lambda>x y. createdAt y \<le> createdAt x) (sort_desc createdAt (blogs w))"
    by (rule sorted_wrt_sort_desc)
qed

text \<open>The post created last is listed first, though it was published earlier.\<close>

theorem get_admin_blogs_projection_witness:
  "get_admin_blogs (service sample_env) (empty_world\<lparr>blogs := [sample_blog, backdated_blog]\<rparr>) =
     (Response 200
        (Docs [[(''_id'', JStr ''65b000000000000000000002''), (''title'', JStr ''E''),
                (''slug'', JStr ''e-post'')],
               [(''_id'', JStr ''65b000000000000000000001''), (''title'', JStr ''A''),
                (''slug'', JStr ''a-post'')]]),
      empty_world\<lparr>blogs := [sample_blog, backdated_blog], calls := [BlogFindTitleSlug]\<rparr>)"
  using get_admin_blogs_projection
          [of sample_env "empty_world\<lparr>blogs := [sample_blog, backdated_blog]\<rparr>"]
  by (simp add: get_admin_blogs_def service_def find_Blog_title_slug_def logged_def sort_desc_def
        title_slug_def empty_world_def sample_blog_def backdated_blog_def)

text \<open>Claim C7 as first stated fails: the one document returned for the sample
  collection has three fields, not the two fields \<open>title\<close> and \<open>slug\<close> only.\<close>

theorem get_admin_blogs_projection_counterexample:
  "fst (get_admin_blogs (service sample_env) sample_world) =
     Response 200 (Docs [[(''_id'', JStr ''65b000000000000000000001''),
                          (''title'', JStr ''A''), (''slug'', JStr ''a-post'')]])
   \<and> fst (get_admin_blogs (service sample_env) sample_world) \<noteq>
     Response 200 (Docs [[(''title'', JStr ''A''), (''slug'', JStr ''a-post'')]])"
  by (simp add: get_admin_blogs_def service_def find_Blog_title_slug_def logged_def
        sort_desc_def title_slug_def sample_world_def sample_blog_def)

section \<open>Gallery creation\<close>

text \<open>
  Claim C10. For any persistence layer, two bodies that agree on \<open>src\<close>, \<open>publicId\<close> and
  \<open>alt\<close> get the same answer and leave the same state, whatever else they hold. In the
  running service a request, with or without a body, either stores nothing and is not answered with a created
  record, or it stores exactly the record it is answered with, whose \<open>createdAt\<close> is the
  time of the request and whose identifier is the next generated one.
\<close>

theorem post_gallery_body_fields:
  "(field b1 ''src'' = field b2 ''src'' \<and> field b1 ''publicId'' = field b2 ''publicId''
      \<and> field b1 ''alt'' = field b2 ''alt''
     \<longrightarrow> post_gallery d (Some b1) s = post_gallery d (Some b2) s)
   \<and> (post_gallery (service e) req_body w = (resp, w')
     \<longrightarrow> (gallery w' = gallery w \<and> (\<forall>img. resp \<noteq> Response 201 (ImageDoc img)))
        \<or> (\<exists>img. resp = Response 201 (ImageDoc img) \<and> gallery w' = gallery w @ [img]
              \<and> img_createdAt img = clock w \<and> img_id img = new_oid e (oid_count w)))"
proof (intro conjI impI)
  assume "field b1 ''src'' = field b2 ''src'' \<and> field b1 ''publicId'' = field b2 ''publicId''
      \<and> field b1 ''alt'' = field b2 ''alt''"
  then show "post_gallery d (Some b1) s = post_gallery d (Some b2) s"
    by (simp add: post_gallery_def)
next
  assume run: "post_gallery (service e) req_body w = (resp, w')"
  show "(gallery w' = gallery w \<and> (\<forall>img. resp \<noteq> Response 201 (ImageDoc img)))
        \<or> (\<exists>img. resp = Response 201 (ImageDoc img) \<and> gallery w' = gallery w @ [img]
              \<and> img_createdAt img = clock w \<and> img_id img = new_oid e (oid_count w))"
  proof (cases req_body)
    case None
    with run show ?thesis
      by (auto simp: post_gallery_def)
  next
    case (Some b)
    let ?i = "\<lparr>in_src = field b ''src'', in_publicId = field b ''publicId'',
                 in_alt = field b ''alt''\<rparr>"
    show ?thesis
    proof (cases "GalleryImage_doc e ?i (new_oid e (oid_count w)) (clock w)")
      case None
      with run Some show ?thesis
        by (auto simp: post_gallery_def service_def save_GalleryImage_def logged_def
              split: if_splits)
    next
      case (Some img)
      then have "img_createdAt img = clock w \<and> img_id img = new_oid e (oid_count w)"
        by (auto simp: GalleryImage_doc_def split: Option.bind_splits)
      with run Some \<open>req_body = Some b\<close> show ?thesis
        by (auto simp: post_gallery_def service_def save_GalleryImage_def logged_def
              split: if_splits)
    qed
  qed
qed

text \<open>A body that also carries an \<open>id\<close> and a \<open>createdAt\<close> of its own.\<close>

theorem post_gallery_body_fields_witness:
  "post_gallery (service sample_env)
      (Some (example_image(''id'' \<mapsto> JStr ''x'', ''createdAt'' \<mapsto> JNum 5))) empty_world =
   post_gallery (service sample_env) (Some example_image) empty_world
   \<and> post_gallery (service sample_env) (Some example_image) empty_world =
       (Response 201 (ImageDoc
          \<lparr>img_id = ''000000000000000000000000'', src = ''https://x/y.jpg'',
           publicId = ''gallery/y'', alt = Some ''Event Image'',
           img_createdAt = 1700000005000\<rparr>),
        \<lparr>blogs = [],
         gallery = [\<lparr>img_id = ''000000000000000000000000'', src = ''https://x/y.jpg'',
           publicId = ''gallery/y'', alt = Some ''Event Image'',
           img_createdAt = 1700000005000\<rparr>],
         calls = [GallerySave], clock = 1700000005000, oid_count = 1\<rparr>)"
  using post_gallery_body_fields
          [of "example_image(''id'' \<mapsto> JStr ''x'', ''createdAt'' \<mapsto> JNum 5)" example_image
              "service sample_env" empty_world sample_env "Some example_image" empty_world
              "Response 201 (ImageDoc
                 \<lparr>img_id = ''000000000000000000000000'', src = ''https://x/y.jpg'',
                  publicId = ''gallery/y'', alt = Some ''Event Image'',
                  img_createdAt = 1700000005000\<rparr>)"
              "\<lparr>blogs = [],
                gallery = [\<lparr>img_id = ''000000000000000000000000'', src = ''https://x/y.jpg'',
                  publicId = ''gallery/y'', alt = Some ''Event Image'',
                  img_createdAt = 1700000005000\<rparr>],
                calls = [GallerySave], clock = 1700000005000, oid_count = 1\<rparr>"]
  by (simp add: post_gallery_def field_def example_image_def service_def save_GalleryImage_def
        GalleryImage_doc_def required_String_def cast_String_def plain_String_def
        default_String_def logged_def sample_env_def empty_world_def hex_of_24_0)

end
